theory Spec2Isabelle
  imports Complex_Main
begin

section \<open>Soberania PhiGuard: the manipulation-risk scoring engine\<close>

text \<open>
  A shallow embedding of \<^verbatim>\<open>src/soberania_phiguard.py\<close>. Python floats are modelled
  as real numbers (rounding, infinities and NaN are not modelled), Python ints as \<open>int\<close>, and a Python
  \<^verbatim>\<open>str\<close> as a \<open>string\<close> in which every \<open>char\<close> stands for one code point
  below 256. Each reading of \<^verbatim>\<open>time.time()\<close> is a parameter of the operation that
  reads the clock.
\<close>

subsection \<open>Fundamental constants\<close>

definition PHI :: real where
  "PHI = 16180339887498949 / 10000000000000000"

definition GAMMA :: real where
  "GAMMA = 1 / (6 * PHI)"

definition CLAMP_HIGH :: real where
  "CLAMP_HIGH = 1 - GAMMA"

definition CLAMP_LOW :: real where
  "CLAMP_LOW = GAMMA"

definition VOLATILE_DECAY :: real where
  "VOLATILE_DECAY = 1 / PHI"

definition PERSISTENT_DECAY :: real where
  "PERSISTENT_DECAY = GAMMA"

definition V_CAP_HARM :: real where
  "V_CAP_HARM = 50 / 100"

definition V_CAP_MANIPULATION :: real where
  "V_CAP_MANIPULATION = 40 / 100"

definition V_CAP_COERCION :: real where
  "V_CAP_COERCION = 45 / 100"

subsection \<open>Languages and directions\<close>

datatype Language = SPANISH | ENGLISH | PORTUGUESE | AUTO

definition Language_value :: "Language \<Rightarrow> string" where
  "Language_value l =
     (case l of SPANISH \<Rightarrow> ''es'' | ENGLISH \<Rightarrow> ''en'' | PORTUGUESE \<Rightarrow> ''pt'' | AUTO \<Rightarrow> ''auto'')"

text \<open>Iterating over the enum yields its members in definition order.\<close>

definition all_languages :: "Language list" where
  "all_languages = [SPANISH, ENGLISH, PORTUGUESE, AUTO]"

datatype Direction = INBOUND | OUTBOUND | BILATERAL

definition Direction_value :: "Direction \<Rightarrow> string" where
  "Direction_value d =
     (case d of INBOUND \<Rightarrow> ''inbound'' | OUTBOUND \<Rightarrow> ''outbound'' | BILATERAL \<Rightarrow> ''bilateral'')"

subsection \<open>The regular expressions of the pattern library\<close>

text \<open>
  Every pattern of the library has the shape \<^verbatim>\<open>\b(a1|a2|...)\b\<close> with literal
  alternatives and is compiled with \<^verbatim>\<open>re.IGNORECASE | re.UNICODE\<close>. A pattern is
  kept as the list of its alternatives. The functions below give the part of Python's
  \<^verbatim>\<open>re\<close> module these patterns use, on code points below 256: the class \<^verbatim>\<open>\w\<close>, simple
  lower-casing, the word boundary, ordered alternation with backtracking into the
  trailing boundary, and the left-to-right scan for non-overlapping matches.
\<close>

type_synonym pattern = "string list"

definition is_word :: "char \<Rightarrow> bool" where
  "is_word c =
     (let n = (of_char c :: nat) in
        (48 \<le> n \<and> n \<le> 57) \<or> (65 \<le> n \<and> n \<le> 90) \<or> n = 95 \<or> (97 \<le> n \<and> n \<le> 122)
        \<or> n = 170 \<or> n = 178 \<or> n = 179 \<or> n = 181 \<or> n = 185 \<or> n = 186
        \<or> (188 \<le> n \<and> n \<le> 190) \<or> (192 \<le> n \<and> n \<le> 214)
        \<or> (216 \<le> n \<and> n \<le> 246) \<or> (248 \<le> n \<and> n \<le> 255))"

definition lower_char :: "char \<Rightarrow> char" where
  "lower_char c =
     (let n = (of_char c :: nat) in
        if (65 \<le> n \<and> n \<le> 90) \<or> (192 \<le> n \<and> n \<le> 214) \<or> (216 \<le> n \<and> n \<le> 222)
        then char_of (n + 32) else c)"

definition lower :: "string \<Rightarrow> string" where
  "lower s = map lower_char s"

definition is_word_opt :: "char option \<Rightarrow> bool" where
  "is_word_opt c = (case c of None \<Rightarrow> False | Some x \<Rightarrow> is_word x)"

text \<open>\<^verbatim>\<open>\b\<close> between the character in front of a position and the one at it.\<close>

definition boundary :: "char option \<Rightarrow> char option \<Rightarrow> bool" where
  "boundary prev next_c = (is_word_opt prev \<noteq> is_word_opt next_c)"

fun starts_with_ci :: "string \<Rightarrow> string \<Rightarrow> bool" where
  "starts_with_ci [] cs = True"
| "starts_with_ci (p # ps) [] = False"
| "starts_with_ci (p # ps) (c # cs) = (lower_char c = lower_char p \<and> starts_with_ci ps cs)"

definition char_at :: "string \<Rightarrow> nat \<Rightarrow> char option" where
  "char_at s i = (if i < length s then Some (s ! i) else None)"

text \<open>
  The alternatives are tried in order at the current position; one succeeds when its
  text is there and a boundary follows it. The result is the length of the match.
\<close>

fun try_alternatives :: "pattern \<Rightarrow> char option \<Rightarrow> string \<Rightarrow> nat option" where
  "try_alternatives [] prev rest = None"
| "try_alternatives (a # alts) prev rest =
     (let n = length a in
        if starts_with_ci a rest
           \<and> boundary (if n = 0 then prev else char_at rest (n - 1)) (char_at rest n)
        then Some n
        else try_alternatives alts prev rest)"

definition match_at :: "pattern \<Rightarrow> char option \<Rightarrow> string \<Rightarrow> nat option" where
  "match_at p prev rest =
     (if boundary prev (char_at rest 0) then try_alternatives p prev rest else None)"

text \<open>
  The scan of \<^verbatim>\<open>findall\<close>: \<open>skip\<close> counts the characters of the last match that are
  still to be passed over. Only the number of matches is used by the caller.
\<close>

fun scan :: "pattern \<Rightarrow> nat \<Rightarrow> char option \<Rightarrow> string \<Rightarrow> nat" where
  "scan p skip prev [] = 0"
| "scan p (Suc k) prev (c # cs) = scan p k (Some c) cs"
| "scan p 0 prev (c # cs) =
     (case match_at p prev (c # cs) of
        Some n \<Rightarrow> 1 + scan p (n - 1) (Some c) cs
      | None \<Rightarrow> scan p 0 (Some c) cs)"

definition findall_count :: "pattern \<Rightarrow> string \<Rightarrow> nat" where
  "findall_count p text = scan p 0 None text"

definition search :: "pattern \<Rightarrow> string \<Rightarrow> bool" where
  "search p text = (0 < findall_count p text)"

text \<open>\<^verbatim>\<open>re.findall(r'\b\w+\b', s)\<close>: the maximal runs of word characters, in order.\<close>

fun word_runs :: "string \<Rightarrow> string \<Rightarrow> string list" where
  "word_runs cur [] = (if cur = [] then [] else [cur])"
| "word_runs cur (c # cs) =
     (if is_word c then word_runs (cur @ [c]) cs
      else if cur = [] then word_runs [] cs
      else cur # word_runs [] cs)"

definition findall_words :: "string \<Rightarrow> string list" where
  "findall_words s = word_runs [] s"

subsection \<open>The pattern library\<close>

text \<open>
  \<^verbatim>\<open>MANIPULATION_PATTERNS\<close>: per language, the categories in the order of the source
  dictionary, each with its three patterns. \<^verbatim>\<open>_compile_patterns\<close> keeps keys and order.
\<close>

definition PATTERNS_SPANISH :: "(string \<times> pattern list) list" where
  "PATTERNS_SPANISH =
     [(''urgency'',
        [[''urgente'', ''ahora mismo'', ''inmediatamente'', ''ya'', ''rapido'', ''prisa''],
         [''antes de que sea tarde'', ''ultima oportunidad'', ''tiempo limitado''],
         [''no hay tiempo'', ''actua ya'', ''hazlo ahora'']]),
      (''fear'',
        [[''peligro'', ''amenaza'', ''riesgo'', ''cuidado'', ''alerta''],
         [''te van a'', ''van a venir'', ''te buscan'', ''te persiguen''],
         [''desastre'', ''catastrofe'', ''destruccion'', ''muerte'']]),
      (''authority'',
        [[''autoridad'', ''gobierno'', ''oficial'', ''militar'', ''policia''],
         [''orden de'', ''mandato'', ''decreto'', ''ley''],
         [''debes obedecer'', ''tienes que'', ''obligatorio'']]),
      (''isolation'',
        [[''no confies'', ''solo yo'', ''nadie mas'', ''los demas mienten''],
         [''ellos no entienden'', ''solo nosotros'', ''secreto entre''],
         [''no le digas a nadie'', ''entre tu y yo'']]),
      (''flattery'',
        [[''eres especial'', ''solo tu puedes'', ''elegido'', ''unico''],
         [''confio solo en ti'', ''eres el mejor'', ''increible''],
         [''nadie como tu'', ''extraordinario'']]),
      (''coercion'',
        [[''si no lo haces'', ''consecuencias'', ''arrepentiras''],
         [''obligado a'', ''forzado a'', ''sin opcion''],
         [''o esto o'', ''ultima advertencia'']]),
      (''misinformation'',
        [[''la verdad es que'', ''lo que no te dicen'', ''secreto''],
         [''todos saben'', ''es obvio que'', ''claramente''],
         [''fuentes confirman'', ''se ha confirmado'']]),
      (''surrender'',
        [[''rendirse'', ''entregarse'', ''capitular'', ''abandonar''],
         [''es inutil'', ''no tiene sentido'', ''perdieron''],
         [''derrota'', ''derrotado'', ''vencido'']])]"

definition PATTERNS_ENGLISH :: "(string \<times> pattern list) list" where
  "PATTERNS_ENGLISH =
     [(''urgency'',
        [[''urgent'', ''right now'', ''immediately'', ''hurry'', ''quick'', ''asap''],
         [''before it's too late'', ''last chance'', ''limited time''],
         [''no time'', ''act now'', ''do it now'']]),
      (''fear'',
        [[''danger'', ''threat'', ''risk'', ''warning'', ''alert''],
         [''they will'', ''coming for you'', ''looking for you''],
         [''disaster'', ''catastrophe'', ''destruction'', ''death'']]),
      (''authority'',
        [[''authority'', ''government'', ''official'', ''military'', ''police''],
         [''order from'', ''mandate'', ''decree'', ''law''],
         [''must obey'', ''have to'', ''mandatory'', ''required'']]),
      (''isolation'',
        [[''don't trust'', ''only I'', ''no one else'', ''others lie''],
         [''they don't understand'', ''only us'', ''secret between''],
         [''don't tell anyone'', ''between you and me'']]),
      (''flattery'',
        [[''you're special'', ''only you can'', ''chosen'', ''unique''],
         [''trust only you'', ''you're the best'', ''amazing''],
         [''no one like you'', ''extraordinary'']]),
      (''coercion'',
        [[''if you don't'', ''consequences'', ''regret''],
         [''forced to'', ''no choice'', ''must comply''],
         [''either this or'', ''final warning'']]),
      (''misinformation'',
        [[''the truth is'', ''what they don't tell'', ''secret''],
         [''everyone knows'', ''obviously'', ''clearly''],
         [''sources confirm'', ''has been confirmed'']]),
      (''surrender'',
        [[''surrender'', ''give up'', ''capitulate'', ''abandon''],
         [''it's useless'', ''pointless'', ''you lost''],
         [''defeat'', ''defeated'', ''beaten'']])]"

definition PATTERNS_PORTUGUESE :: "(string \<times> pattern list) list" where
  "PATTERNS_PORTUGUESE =
     [(''urgency'',
        [[''urgente'', ''agora mesmo'', ''imediatamente'', ''ja'', ''rapido'', ''pressa''],
         [''antes que seja tarde'', ''ultima chance'', ''tempo limitado''],
         [''nao ha tempo'', ''age agora'', ''faz agora'']]),
      (''fear'',
        [[''perigo'', ''ameaca'', ''risco'', ''cuidado'', ''alerta''],
         [''vao te'', ''vem ai'', ''te procuram'', ''te perseguem''],
         [''desastre'', ''catastrofe'', ''destruicao'', ''morte'']]),
      (''authority'',
        [[''autoridade'', ''governo'', ''oficial'', ''militar'', ''policia''],
         [''ordem de'', ''mandato'', ''decreto'', ''lei''],
         [''deve obedecer'', ''tem que'', ''obrigatorio'']]),
      (''isolation'',
        [[''nao confie'', ''so eu'', ''ninguem mais'', ''outros mentem''],
         [''eles nao entendem'', ''so nos'', ''segredo entre''],
         [''nao diga a ninguem'', ''entre voce e eu'']]),
      (''flattery'',
        [[''voce e especial'', ''so voce pode'', ''escolhido'', ''unico''],
         [''confio so em voce'', ''voce e o melhor'', ''incrivel''],
         [''ninguem como voce'', ''extraordinario'']]),
      (''coercion'',
        [[''se nao fizer'', ''consequencias'', ''arrepender''],
         [''obrigado a'', ''forcado a'', ''sem opcao''],
         [''ou isso ou'', ''ultimo aviso'']]),
      (''misinformation'',
        [[''a verdade e que'', ''o que nao te dizem'', ''segredo''],
         [''todos sabem'', ''e obvio que'', ''claramente''],
         [''fontes confirmam'', ''foi confirmado'']]),
      (''surrender'',
        [[''render'', ''entregar'', ''capitular'', ''abandonar''],
         [''e inutil'', ''nao tem sentido'', ''perderam''],
         [''derrota'', ''derrotado'', ''vencido'']])]"

definition MANIPULATION_PATTERNS :: "Language \<Rightarrow> (string \<times> pattern list) list option" where
  "MANIPULATION_PATTERNS l =
     (case l of
        SPANISH \<Rightarrow> Some PATTERNS_SPANISH
      | ENGLISH \<Rightarrow> Some PATTERNS_ENGLISH
      | PORTUGUESE \<Rightarrow> Some PATTERNS_PORTUGUESE
      | AUTO \<Rightarrow> None)"

subsection \<open>Dictionaries from category to strength\<close>

text \<open>
  A Python dict keeps insertion order: assigning to a present key replaces its value in
  place, assigning to a new key appends it.
\<close>

type_synonym signals = "(string \<times> real) list"

fun dict_get :: "signals \<Rightarrow> string \<Rightarrow> real \<Rightarrow> real" where
  "dict_get [] k d = d"
| "dict_get ((k', v) # rest) k d = (if k' = k then v else dict_get rest k d)"

fun dict_set :: "signals \<Rightarrow> string \<Rightarrow> real \<Rightarrow> signals" where
  "dict_set [] k v = [(k, v)]"
| "dict_set ((k', v') # rest) k v =
     (if k' = k then (k, v) # rest else (k', v') # dict_set rest k v)"

definition SIGNAL_MULTIPLIERS :: signals where
  "SIGNAL_MULTIPLIERS =
     [(''harm'', 2), (''manipulation'', 15 / 10), (''coercion'', 2), (''flattery'', 1),
      (''isolation'', 15 / 10), (''urgency'', 125 / 100), (''authority'', 1),
      (''misinformation'', 15 / 10), (''fear'', 15 / 10), (''surrender'', 175 / 100),
      (''uncertainty'', 5 / 10), (''distress'', 75 / 100)]"

subsection \<open>Language detection\<close>

definition es_markers :: "string list" where
  "es_markers = [''el'', ''la'', ''de'', ''que'', ''en'', ''es'', ''por'', ''con'', ''para'']"

definition pt_markers :: "string list" where
  "pt_markers =
     [''o'', ''a'', ''de'', ''que'', ''em'', ''e'', ''por'', ''com'', ''para'', ''nao'', ''voce'']"

definition en_markers :: "string list" where
  "en_markers = [''the'', ''is'', ''are'', ''of'', ''to'', ''and'', ''in'', ''that'', ''you'']"

text \<open>
  Python sets of strings are kept as lists without duplicates: \<^verbatim>\<open>set(xs)\<close> drops
  the duplicates, \<^verbatim>\<open>a & b\<close> keeps the members of \<open>a\<close> that are in \<open>b\<close>, and
  \<^verbatim>\<open>len\<close> is the length.
\<close>

definition py_set :: "string list \<Rightarrow> string list" where
  "py_set xs = remdups xs"

definition py_inter :: "string list \<Rightarrow> string list \<Rightarrow> string list" where
  "py_inter a b = filter (\<lambda>x. x \<in> set b) a"

definition words_of :: "string \<Rightarrow> string list" where
  "words_of text = py_set (findall_words (lower text))"

definition es_score :: "string \<Rightarrow> nat" where
  "es_score text = length (py_inter (words_of text) (py_set es_markers))"

definition pt_score :: "string \<Rightarrow> nat" where
  "pt_score text = length (py_inter (words_of text) (py_set pt_markers))"

definition en_score :: "string \<Rightarrow> nat" where
  "en_score text = length (py_inter (words_of text) (py_set en_markers))"

definition detect_language :: "string \<Rightarrow> Language" where
  "detect_language text =
     (if pt_score text > es_score text \<and> pt_score text > en_score text then PORTUGUESE
      else if en_score text > es_score text then ENGLISH
      else SPANISH)"

subsection \<open>Signal analysis\<close>

text \<open>
  The first loop of \<^verbatim>\<open>_analyze_signals\<close>: for a pattern with matches the strength of
  its category grows by 0.2 per match and is capped at 1.0 (the default of the
  \<^verbatim>\<open>defaultdict\<close> is 0.0).
\<close>

definition count_pattern :: "string \<Rightarrow> string \<Rightarrow> signals \<Rightarrow> pattern \<Rightarrow> signals" where
  "count_pattern text category sig p =
     (let n = findall_count p text in
        if 0 < n
        then dict_set sig category (min 1 (dict_get sig category 0 + real n * (2 / 10)))
        else sig)"

definition count_category :: "string \<Rightarrow> signals \<Rightarrow> string \<times> pattern list \<Rightarrow> signals" where
  "count_category text sig entry =
     foldl (count_pattern text (fst entry)) sig (snd entry)"

definition count_language :: "string \<Rightarrow> Language \<Rightarrow> signals \<Rightarrow> signals" where
  "count_language text language sig =
     (case MANIPULATION_PATTERNS language of
        None \<Rightarrow> sig
      | Some categories \<Rightarrow> foldl (count_category text) sig categories)"

text \<open>
  The second loop: a pattern of another language that is found anywhere raises the
  strength of its category to at least 0.3.
\<close>

definition leak_pattern :: "string \<Rightarrow> string \<Rightarrow> signals \<Rightarrow> pattern \<Rightarrow> signals" where
  "leak_pattern text category sig p =
     (if search p text
      then dict_set sig category (max (dict_get sig category 0) (3 / 10))
      else sig)"

definition leak_category :: "string \<Rightarrow> signals \<Rightarrow> string \<times> pattern list \<Rightarrow> signals" where
  "leak_category text sig entry =
     foldl (leak_pattern text (fst entry)) sig (snd entry)"

definition leak_language :: "string \<Rightarrow> Language \<Rightarrow> signals \<Rightarrow> Language \<Rightarrow> signals" where
  "leak_language text language sig lang =
     (if lang \<noteq> language
      then (case MANIPULATION_PATTERNS lang of
              None \<Rightarrow> sig
            | Some categories \<Rightarrow> foldl (leak_category text) sig categories)
      else sig)"

definition cross_language :: "string \<Rightarrow> Language \<Rightarrow> signals \<Rightarrow> signals" where
  "cross_language text language sig =
     foldl (leak_language text language) sig all_languages"

definition composite_flags :: "signals \<Rightarrow> string list" where
  "composite_flags sig =
     (if dict_get sig ''flattery'' 0 > 3 / 10 \<and> dict_get sig ''isolation'' 0 > 2 / 10
      then [''love_bombing''] else [])
     @ (if dict_get sig ''fear'' 0 > 4 / 10 \<and> dict_get sig ''urgency'' 0 > 3 / 10
        then [''fear_mongering''] else [])
     @ (if dict_get sig ''authority'' 0 > 3 / 10 \<and> dict_get sig ''coercion'' 0 > 3 / 10
        then [''authority_coercion''] else [])
     @ (if dict_get sig ''isolation'' 0 > 4 / 10 then [''isolation_attempt''] else [])
     @ (if dict_get sig ''misinformation'' 0 > 4 / 10 then [''disinfo_detected''] else [])
     @ (if dict_get sig ''surrender'' 0 > 3 / 10 then [''surrender_pressure''] else [])"

definition analyze_signals :: "string \<Rightarrow> Language \<Rightarrow> signals \<times> string list" where
  "analyze_signals text language =
     (let sig = cross_language text language (count_language text language [])
      in (sig, composite_flags sig))"

subsection \<open>Risk delta\<close>

definition compute_risk_delta :: "signals \<Rightarrow> real" where
  "compute_risk_delta sig =
     min (3 / 10)
       (foldl (\<lambda>delta (signal, strength).
                 delta + strength * dict_get SIGNAL_MULTIPLIERS signal 1 * (1 / 10))
          0 sig)"

subsection \<open>Channel state\<close>

record HistoryEntry =
  entry_turn :: int
  entry_risk :: real
  entry_safety :: real
  entry_signals :: signals
  entry_flags :: "string list"
  entry_timestamp :: real

text \<open>
  The flag set of a channel is such a list too; Python leaves the iteration order of a
  set open, the list keeps the order of first insertion.
\<close>

record ChannelState =
  risk :: real
  safety :: real
  uncertainty :: real
  velocity :: real
  last_update :: real
  flags :: "string list"
  turn_count :: int
  history :: "HistoryEntry list"

definition new_ChannelState :: ChannelState where
  "new_ChannelState =
     \<lparr>risk = CLAMP_LOW, safety = 1, uncertainty = 0, velocity = 0, last_update = 0,
      flags = [], turn_count = 0, history = []\<rparr>"

record ChannelResult =
  result_risk :: real
  result_safety :: real
  result_velocity :: real
  velocity_exceeded :: bool
  result_flags :: "string list"

definition set_add :: "string list \<Rightarrow> string \<Rightarrow> string list" where
  "set_add s x = (if x \<in> set s then s else s @ [x])"

definition set_update :: "string list \<Rightarrow> string list \<Rightarrow> string list" where
  "set_update s xs = foldl set_add s xs"

text \<open>Time-based decay, applied when the channel has been updated before.\<close>

definition decay_channel :: "real \<Rightarrow> ChannelState \<Rightarrow> ChannelState" where
  "decay_channel now channel =
     (if last_update channel > 0
      then (let elapsed = now - last_update channel;
                decay_factor = min 1 (elapsed / 10)
            in channel\<lparr>risk := risk channel * (1 - VOLATILE_DECAY * decay_factor),
                       safety := max CLAMP_LOW
                                   (safety channel - PERSISTENT_DECAY * decay_factor * (1 / 10))\<rparr>)
      else channel)"

text \<open>The loop over the velocity caps, one step per item of the signal map.\<close>

definition velocity_step :: "bool \<Rightarrow> string \<times> real \<Rightarrow> bool" where
  "velocity_step exceeded item =
     (let signal = fst item; strength = snd item in
        if signal = ''harm'' \<and> strength * (3 / 10) > V_CAP_HARM then True
        else if signal = ''manipulation'' \<and> strength * (3 / 10) > V_CAP_MANIPULATION then True
        else if signal = ''coercion'' \<and> strength * (3 / 10) > V_CAP_COERCION then True
        else exceeded)"

definition velocity_check :: "signals \<Rightarrow> bool" where
  "velocity_check sig = foldl velocity_step False sig"

text \<open>\<^verbatim>\<open>history.append(entry)\<close>, then only the last 100 entries are kept.\<close>

definition append_history :: "HistoryEntry list \<Rightarrow> HistoryEntry \<Rightarrow> HistoryEntry list" where
  "append_history h e =
     (let h' = h @ [e] in if length h' > 100 then drop (length h' - 100) h' else h')"

definition update_channel ::
  "real \<Rightarrow> ChannelState \<Rightarrow> signals \<Rightarrow> string list \<Rightarrow> real \<Rightarrow> ChannelState \<times> ChannelResult"
where
  "update_channel now channel sig fl risk_delta =
     (let c1 = channel\<lparr>turn_count := turn_count channel + 1\<rparr>;
          c2 = decay_channel now c1;
          old_risk = risk c2;
          c3 = c2\<lparr>risk := min CLAMP_HIGH (risk c2 + risk_delta)\<rparr>;
          c4 = c3\<lparr>velocity := risk c3 - old_risk\<rparr>;
          exceeded = velocity_check sig;
          c5 = c4\<lparr>flags := set_update (flags c4) fl\<rparr>;
          c6 = c5\<lparr>risk := max CLAMP_LOW (risk c5)\<rparr>;
          c7 = (if risk_delta > 0
                then c6\<lparr>safety := max CLAMP_LOW (safety c6 - risk_delta * GAMMA)\<rparr>
                else c6);
          c8 = c7\<lparr>last_update := now\<rparr>;
          entry = \<lparr>entry_turn = turn_count c8, entry_risk = risk c8,
                   entry_safety = safety c8, entry_signals = sig, entry_flags = fl,
                   entry_timestamp = now\<rparr>;
          c9 = c8\<lparr>history := append_history (history c8) entry\<rparr>
      in (c9, \<lparr>result_risk = risk c9, result_safety = safety c9,
                result_velocity = velocity c9, velocity_exceeded = exceeded,
                result_flags = flags c9\<rparr>))"

subsection \<open>The guard\<close>

record Guard =
  node_id :: string
  primary_language :: Language
  state_file :: "string option"
  inbound :: ChannelState
  outbound :: ChannelState
  session_start :: real
  total_messages :: int
  handoff_triggered :: bool
  lockdown_active :: bool

record MessageResult =
  msg_direction :: string
  msg_language :: string
  msg_signals :: signals
  msg_flags :: "string list"
  msg_channel_risk :: real
  msg_channel_safety :: real
  msg_channel_velocity :: real
  msg_bilateral_risk :: real
  msg_bilateral_safety :: real
  msg_level :: string
  msg_handoff :: bool
  msg_lockdown :: bool
  msg_timestamp :: real
  msg_metadata :: "(string \<times> string) list"

definition compute_level :: "real \<Rightarrow> string" where
  "compute_level r =
     (if r \<ge> CLAMP_HIGH then ''CRITICAL''
      else if r \<ge> 6 / 10 then ''HIGH''
      else if r \<ge> 3 / 10 then ''MODERATE''
      else ''LOW'')"

text \<open>A path or file name is truthy when it is given and not empty.\<close>

definition truthy :: "string option \<Rightarrow> bool" where
  "truthy p = (case p of None \<Rightarrow> False | Some s \<Rightarrow> s \<noteq> [])"

text \<open>
  \<^verbatim>\<open>process_message\<close> up to the result, before the auto-save. \<open>t_call\<close> is the
  clock read at entry, \<open>t_update\<close> the one inside \<^verbatim>\<open>_update_channel\<close>. Every
  direction other than \<open>INBOUND\<close> selects the outbound channel; the channel object is
  updated in place, which \<open>store_channel\<close> writes back.
\<close>

definition select_channel :: "Direction \<Rightarrow> Guard \<Rightarrow> ChannelState" where
  "select_channel direction g = (if direction = INBOUND then inbound g else outbound g)"

definition store_channel :: "Direction \<Rightarrow> ChannelState \<Rightarrow> Guard \<Rightarrow> Guard" where
  "store_channel direction c g =
     (if direction = INBOUND then g\<lparr>inbound := c\<rparr> else g\<lparr>outbound := c\<rparr>)"

definition resolve_language :: "Language \<Rightarrow> string \<Rightarrow> Language" where
  "resolve_language language text = (if language = AUTO then detect_language text else language)"

definition process_core ::
  "real \<Rightarrow> real \<Rightarrow> string \<Rightarrow> Direction \<Rightarrow> Language \<Rightarrow> (string \<times> string) list option
     \<Rightarrow> Guard \<Rightarrow> Guard \<times> MessageResult"
where
  "process_core t_call t_update text direction language metadata g =
     (let g1 = g\<lparr>total_messages := total_messages g + 1\<rparr>;
          lang = resolve_language language text;
          analysis = analyze_signals text lang;
          sig = fst analysis;
          fl = snd analysis;
          risk_delta = compute_risk_delta sig;
          upd = update_channel t_update (select_channel direction g1) sig fl risk_delta;
          g2 = store_channel direction (fst upd) g1;
          channel_result = snd upd;
          bilateral_risk = max (risk (inbound g2)) (risk (outbound g2));
          bilateral_safety = min (safety (inbound g2)) (safety (outbound g2));
          level = compute_level bilateral_risk;
          handoff = (bilateral_risk \<ge> CLAMP_HIGH \<or> velocity_exceeded channel_result);
          g3 = (if handoff \<and> \<not> handoff_triggered g2
                then g2\<lparr>handoff_triggered := True\<rparr> else g2)
      in (g3, \<lparr>msg_direction = Direction_value direction,
                msg_language = Language_value lang,
                msg_signals = sig, msg_flags = fl,
                msg_channel_risk = result_risk channel_result,
                msg_channel_safety = result_safety channel_result,
                msg_channel_velocity = result_velocity channel_result,
                msg_bilateral_risk = bilateral_risk,
                msg_bilateral_safety = bilateral_safety,
                msg_level = level, msg_handoff = handoff,
                msg_lockdown = lockdown_active g3, msg_timestamp = t_call,
                msg_metadata = (case metadata of None \<Rightarrow> [] | Some m \<Rightarrow> m)\<rparr>))"

record LockdownReply =
  reply_status :: string
  reply_reason :: string
  reply_timestamp :: real

definition trigger_lockdown :: "real \<Rightarrow> string \<Rightarrow> Guard \<Rightarrow> Guard \<times> LockdownReply" where
  "trigger_lockdown now reason g =
     (let g1 = g\<lparr>lockdown_active := True\<rparr>;
          g2 = g1\<lparr>inbound := (inbound g1)\<lparr>risk := CLAMP_HIGH\<rparr>\<rparr>;
          g3 = g2\<lparr>outbound := (outbound g2)\<lparr>risk := CLAMP_HIGH\<rparr>\<rparr>
      in (g3, \<lparr>reply_status = ''LOCKDOWN_ACTIVE'', reply_reason = reason,
                reply_timestamp = now\<rparr>))"

definition release_lockdown :: "string option \<Rightarrow> Guard \<Rightarrow> Guard \<times> string" where
  "release_lockdown auth_key g =
     (if lockdown_active g
      then (g\<lparr>lockdown_active := False\<rparr>, ''LOCKDOWN_RELEASED'')
      else (g, ''NO_LOCKDOWN''))"

definition reset :: "real \<Rightarrow> Guard \<Rightarrow> Guard" where
  "reset now g =
     g\<lparr>inbound := new_ChannelState, outbound := new_ChannelState,
       session_start := now, total_messages := 0,
       handoff_triggered := False, lockdown_active := False\<rparr>"

subsection \<open>Persistence\<close>

text \<open>
  A parsed JSON document as \<^verbatim>\<open>json.load\<close> returns it. What is stored under a path
  is either a file that cannot be opened or read, a file whose content is not JSON, or
  a document; a path that does not exist stores nothing.
\<close>

datatype json =
    JNull
  | JBool bool
  | JInt int
  | JFloat real
  | JStr string
  | JArr "json list"
  | JObj "(string \<times> json) list"

datatype stored = Unreadable | Garbled | Document json

type_synonym filesystem = "string \<Rightarrow> stored option"

datatype error = OSError | JSONDecodeError | KeyError string | TypeError

text \<open>\<^verbatim>\<open>v[k]\<close> with a string key: only a dict with that key has an item.\<close>

definition getitem :: "json \<Rightarrow> string \<Rightarrow> error + json" where
  "getitem v k =
     (case v of
        JObj items \<Rightarrow> (case map_of items k of None \<Rightarrow> Inl (KeyError k) | Some x \<Rightarrow> Inr x)
      | _ \<Rightarrow> Inl TypeError)"

definition getitem2 :: "json \<Rightarrow> string \<Rightarrow> string \<Rightarrow> error + json" where
  "getitem2 v k1 k2 = (case getitem v k1 of Inl e \<Rightarrow> Inl e | Inr x \<Rightarrow> getitem x k2)"

definition hashable :: "json \<Rightarrow> bool" where
  "hashable v = (case v of JArr _ \<Rightarrow> False | JObj _ \<Rightarrow> False | _ \<Rightarrow> True)"

text \<open>
  \<^verbatim>\<open>set(v)\<close>: the elements of a list (which must be hashable), the characters of a
  string, the keys of a dict; nothing else can be iterated.
\<close>

definition to_set :: "json \<Rightarrow> error + json list" where
  "to_set v =
     (case v of
        JArr xs \<Rightarrow> (if list_all hashable xs then Inr (remdups xs) else Inl TypeError)
      | JStr s \<Rightarrow> Inr (remdups (map (\<lambda>c. JStr [c]) s))
      | JObj items \<Rightarrow> Inr (remdups (map (\<lambda>kv. JStr (fst kv)) items))
      | _ \<Rightarrow> Inl TypeError)"

text \<open>
  The fields of the guard are typed in this model. The loader itself stores whatever
  value the document holds; the functions below read a value at the type of the field
  it goes to (a bool is a Python int), and give \<open>None\<close> for a value of another type.
\<close>

definition as_float :: "json \<Rightarrow> real option" where
  "as_float v =
     (case v of
        JFloat r \<Rightarrow> Some r
      | JInt i \<Rightarrow> Some (of_int i)
      | JBool b \<Rightarrow> Some (if b then 1 else 0)
      | _ \<Rightarrow> None)"

definition as_int :: "json \<Rightarrow> int option" where
  "as_int v =
     (case v of JInt i \<Rightarrow> Some i | JBool b \<Rightarrow> Some (if b then 1 else 0) | _ \<Rightarrow> None)"

definition as_bool :: "json \<Rightarrow> bool option" where
  "as_bool v = (case v of JBool b \<Rightarrow> Some b | _ \<Rightarrow> None)"

fun as_strings :: "json list \<Rightarrow> string list option" where
  "as_strings [] = Some []"
| "as_strings (v # vs) =
     (case v of
        JStr s \<Rightarrow> (case as_strings vs of None \<Rightarrow> None | Some ss \<Rightarrow> Some (s # ss))
      | _ \<Rightarrow> None)"

text \<open>
  The state of the \<^verbatim>\<open>try\<close> block of \<^verbatim>\<open>_load_state\<close> after a statement: it went
  through and the guard is as given; it raised, and the guard keeps what was assigned
  before; or it stored a value that the typed guard cannot hold (\<open>Untyped\<close>), where the
  model stops.
\<close>

datatype progress = Done Guard | Raised Guard error | Untyped

definition and_then :: "progress \<Rightarrow> (Guard \<Rightarrow> progress) \<Rightarrow> progress" where
  "and_then p f = (case p of Done g \<Rightarrow> f g | Raised g e \<Rightarrow> Raised g e | Untyped \<Rightarrow> Untyped)"

definition assign_float ::
  "json \<Rightarrow> string \<Rightarrow> string \<Rightarrow> (real \<Rightarrow> Guard \<Rightarrow> Guard) \<Rightarrow> Guard \<Rightarrow> progress" where
  "assign_float state k1 k2 store g =
     (case getitem2 state k1 k2 of
        Inl e \<Rightarrow> Raised g e
      | Inr v \<Rightarrow> (case as_float v of None \<Rightarrow> Untyped | Some r \<Rightarrow> Done (store r g)))"

definition assign_int ::
  "json \<Rightarrow> string \<Rightarrow> string \<Rightarrow> (int \<Rightarrow> Guard \<Rightarrow> Guard) \<Rightarrow> Guard \<Rightarrow> progress" where
  "assign_int state k1 k2 store g =
     (case getitem2 state k1 k2 of
        Inl e \<Rightarrow> Raised g e
      | Inr v \<Rightarrow> (case as_int v of None \<Rightarrow> Untyped | Some i \<Rightarrow> Done (store i g)))"

definition assign_flags ::
  "json \<Rightarrow> string \<Rightarrow> (string list \<Rightarrow> Guard \<Rightarrow> Guard) \<Rightarrow> Guard \<Rightarrow> progress" where
  "assign_flags state k1 store g =
     (case getitem2 state k1 ''flags'' of
        Inl e \<Rightarrow> Raised g e
      | Inr v \<Rightarrow>
          (case to_set v of
             Inl e \<Rightarrow> Raised g e
           | Inr xs \<Rightarrow> (case as_strings xs of None \<Rightarrow> Untyped | Some ss \<Rightarrow> Done (store ss g))))"

definition assign_bool ::
  "json \<Rightarrow> string \<Rightarrow> (bool \<Rightarrow> Guard \<Rightarrow> Guard) \<Rightarrow> Guard \<Rightarrow> progress" where
  "assign_bool state k store g =
     (case getitem state k of
        Inl e \<Rightarrow> Raised g e
      | Inr v \<Rightarrow> (case as_bool v of None \<Rightarrow> Untyped | Some b \<Rightarrow> Done (store b g)))"

text \<open>The body of the \<^verbatim>\<open>try\<close> block: open and parse, then ten assignments in order.\<close>

definition load_body :: "stored \<Rightarrow> Guard \<Rightarrow> progress" where
  "load_body file g =
     (case file of
        Unreadable \<Rightarrow> Raised g OSError
      | Garbled \<Rightarrow> Raised g JSONDecodeError
      | Document state \<Rightarrow>
          and_then (and_then (and_then (and_then (and_then (and_then (and_then (and_then
          (and_then
            (assign_float state ''inbound'' ''risk''
               (\<lambda>r g. g\<lparr>inbound := (inbound g)\<lparr>risk := r\<rparr>\<rparr>) g)
            (assign_float state ''inbound'' ''safety''
               (\<lambda>r g. g\<lparr>inbound := (inbound g)\<lparr>safety := r\<rparr>\<rparr>)))
            (assign_flags state ''inbound''
               (\<lambda>fl g. g\<lparr>inbound := (inbound g)\<lparr>flags := fl\<rparr>\<rparr>)))
            (assign_int state ''inbound'' ''turn_count''
               (\<lambda>n g. g\<lparr>inbound := (inbound g)\<lparr>turn_count := n\<rparr>\<rparr>)))
            (assign_float state ''outbound'' ''risk''
               (\<lambda>r g. g\<lparr>outbound := (outbound g)\<lparr>risk := r\<rparr>\<rparr>)))
            (assign_float state ''outbound'' ''safety''
               (\<lambda>r g. g\<lparr>outbound := (outbound g)\<lparr>safety := r\<rparr>\<rparr>)))
            (assign_flags state ''outbound''
               (\<lambda>fl g. g\<lparr>outbound := (outbound g)\<lparr>flags := fl\<rparr>\<rparr>)))
            (assign_int state ''outbound'' ''turn_count''
               (\<lambda>n g. g\<lparr>outbound := (outbound g)\<lparr>turn_count := n\<rparr>\<rparr>)))
            (assign_bool state ''handoff_triggered'' (\<lambda>b g. g\<lparr>handoff_triggered := b\<rparr>)))
            (assign_bool state ''lockdown_active'' (\<lambda>b g. g\<lparr>lockdown_active := b\<rparr>)))"

text \<open>
  What the console has received: one line per failed load, with the exception in it.
\<close>

datatype log_line = Failed_to_load_state error

text \<open>\<^verbatim>\<open>except Exception\<close>: every error of this model is an \<^verbatim>\<open>Exception\<close>.\<close>

definition is_Exception :: "error \<Rightarrow> bool" where
  "is_Exception e = (case e of OSError \<Rightarrow> True | JSONDecodeError \<Rightarrow> True
                     | KeyError _ \<Rightarrow> True | TypeError \<Rightarrow> True)"

text \<open>
  The outcome of an operation that may raise: it returns with the guard and the
  console, it raises, or the guard has left the typed model.
\<close>

datatype built = Built Guard "log_line list" | Dynamic

definition load_state :: "stored \<Rightarrow> Guard \<Rightarrow> log_line list \<Rightarrow> error + built" where
  "load_state file g console =
     (case load_body file g of
        Done g' \<Rightarrow> Inr (Built g' console)
      | Raised g' e \<Rightarrow>
          (if is_Exception e then Inr (Built g' (console @ [Failed_to_load_state e]))
           else Inl e)
      | Untyped \<Rightarrow> Inr Dynamic)"

definition channel_doc :: "ChannelState \<Rightarrow> json" where
  "channel_doc c =
     JObj [(''risk'', JFloat (risk c)), (''safety'', JFloat (safety c)),
           (''flags'', JArr (map JStr (flags c))), (''turn_count'', JInt (turn_count c))]"

definition state_doc :: "real \<Rightarrow> Guard \<Rightarrow> json" where
  "state_doc now g =
     JObj [(''node_id'', JStr (node_id g)),
           (''inbound'', channel_doc (inbound g)),
           (''outbound'', channel_doc (outbound g)),
           (''handoff_triggered'', JBool (handoff_triggered g)),
           (''lockdown_active'', JBool (lockdown_active g)),
           (''saved_at'', JFloat now)]"

text \<open>
  \<^verbatim>\<open>_save_state\<close>: \<open>disk_ok\<close> says whether the file can be opened and written. The
  source does not catch a failure here.
\<close>

definition save_state :: "real \<Rightarrow> bool \<Rightarrow> filesystem \<Rightarrow> Guard \<Rightarrow> error + filesystem" where
  "save_state now disk_ok fs g =
     (case state_file g of
        None \<Rightarrow> Inl TypeError
      | Some path \<Rightarrow>
          (if path \<noteq> [] \<and> disk_ok then Inr (fs(path \<mapsto> Document (state_doc now g)))
           else Inl OSError))"

subsection \<open>Construction and the public operations\<close>

definition fresh_guard :: "string \<Rightarrow> Language \<Rightarrow> string option \<Rightarrow> real \<Rightarrow> Guard" where
  "fresh_guard nid lang file now =
     \<lparr>node_id = nid, primary_language = lang, state_file = file,
      inbound = new_ChannelState, outbound = new_ChannelState,
      session_start = now, total_messages = 0,
      handoff_triggered = False, lockdown_active = False\<rparr>"

text \<open>\<^verbatim>\<open>__init__\<close>: the persisted state is loaded when a file is named and exists.\<close>

definition persisted_record :: "filesystem \<Rightarrow> string option \<Rightarrow> stored option" where
  "persisted_record fs file =
     (case file of None \<Rightarrow> None | Some path \<Rightarrow> (if path \<noteq> [] then fs path else None))"

definition construct ::
  "filesystem \<Rightarrow> real \<Rightarrow> string \<Rightarrow> Language \<Rightarrow> string option \<Rightarrow> error + built" where
  "construct fs now nid lang file =
     (let g = fresh_guard nid lang file now in
        case persisted_record fs file of
          None \<Rightarrow> Inr (Built g [])
        | Some f \<Rightarrow> load_state f g [])"

record Clock =
  t_call :: real
  t_update :: real
  t_save :: real

text \<open>
  \<^verbatim>\<open>process_message\<close> with the auto-save. The guard returned is the guard after the
  call, also when the save raises, since the channel was updated before.
\<close>

definition process_message ::
  "Clock \<Rightarrow> bool \<Rightarrow> filesystem \<Rightarrow> string \<Rightarrow> Direction \<Rightarrow> Language
     \<Rightarrow> (string \<times> string) list option \<Rightarrow> Guard
     \<Rightarrow> Guard \<times> filesystem \<times> (error + MessageResult)"
where
  "process_message clock disk_ok fs text direction language metadata g =
     (let done = process_core (t_call clock) (t_update clock) text direction language metadata g;
          g' = fst done
      in if truthy (state_file g')
         then (case save_state (t_save clock) disk_ok fs g' of
                 Inl e \<Rightarrow> (g', fs, Inl e)
               | Inr fs' \<Rightarrow> (g', fs', Inr (snd done)))
         else (g', fs, Inr (snd done)))"

subsection \<open>Sessions\<close>

text \<open>The calls a caller can make on a guard within a session, other than \<^verbatim>\<open>reset\<close>.\<close>

datatype call =
    ProcessMessage Clock bool string Direction Language "(string \<times> string) list option"
  | TriggerLockdown real string
  | ReleaseLockdown "string option"

fun apply_call :: "call \<Rightarrow> Guard \<times> filesystem \<Rightarrow> Guard \<times> filesystem" where
  "apply_call (ProcessMessage clock disk_ok text direction language metadata) (g, fs) =
     (let r = process_message clock disk_ok fs text direction language metadata g
      in (fst r, fst (snd r)))"
| "apply_call (TriggerLockdown now reason) (g, fs) = (fst (trigger_lockdown now reason g), fs)"
| "apply_call (ReleaseLockdown auth_key) (g, fs) = (fst (release_lockdown auth_key g), fs)"

definition run_calls :: "call list \<Rightarrow> Guard \<times> filesystem \<Rightarrow> Guard \<times> filesystem" where
  "run_calls calls w = foldl (\<lambda>w c. apply_call c w) w calls"

text \<open>
  The guard states that can arise: a guard constructed without a persisted record,
  any call or \<^verbatim>\<open>reset\<close> on a guard that can arise, and a guard constructed from a
  record that such a guard has saved.
\<close>

inductive reachable :: "Guard \<Rightarrow> bool" where
  fresh: "reachable (fresh_guard nid lang file now)"
| call: "reachable g \<Longrightarrow> reachable (fst (apply_call c (g, fs)))"
| reset: "reachable g \<Longrightarrow> reachable (reset now g)"
| restart: "reachable g0 \<Longrightarrow> persisted_record fs file = Some (Document (state_doc t g0))
            \<Longrightarrow> construct fs now nid lang file = Inr (Built g console)
            \<Longrightarrow> reachable g"

subsection \<open>Notions of the statements and proofs\<close>

text \<open>The bounds of a channel: risk between the clamps, safety not below the lower one.\<close>

definition channel_ok :: "ChannelState \<Rightarrow> bool" where
  "channel_ok c = (CLAMP_LOW \<le> risk c \<and> risk c \<le> CLAMP_HIGH \<and> CLAMP_LOW \<le> safety c)"

definition guard_ok :: "Guard \<Rightarrow> bool" where
  "guard_ok g = (channel_ok (inbound g) \<and> channel_ok (outbound g))"

definition strengths_le1 :: "signals \<Rightarrow> bool" where
  "strengths_le1 sig = list_all (\<lambda>kv. snd kv \<le> 1) sig"

text \<open>What a channel takes over from a saved channel when a record is loaded.\<close>

definition restore_channel :: "ChannelState \<Rightarrow> ChannelState \<Rightarrow> ChannelState" where
  "restore_channel saved c =
     c\<lparr>risk := risk saved, safety := safety saved, flags := remdups (flags saved),
       turn_count := turn_count saved\<rparr>"


section \<open>Verification\<close>

subsection \<open>The constants\<close>

lemma GAMMA_pos: "0 < GAMMA"
  by (simp add: GAMMA_def PHI_def)

lemma GAMMA_small: "GAMMA < 3 / 10"
  by (simp add: GAMMA_def PHI_def)

lemma CLAMP_order: "CLAMP_LOW \<le> CLAMP_HIGH"
  by (simp add: CLAMP_LOW_def CLAMP_HIGH_def GAMMA_def PHI_def)

lemma CLAMP_LOW_pos: "0 < CLAMP_LOW"
  by (simp add: CLAMP_LOW_def GAMMA_pos)

lemma CLAMP_LOW_small: "CLAMP_LOW < 3 / 10"
  using GAMMA_small by (simp add: CLAMP_LOW_def)

lemma VOLATILE_DECAY_range: "0 < VOLATILE_DECAY \<and> VOLATILE_DECAY < 1"
  by (simp add: VOLATILE_DECAY_def PHI_def)

subsection \<open>One channel update\<close>

lemma risk_decay_channel:
  "risk (decay_channel now c) =
     (if last_update c > 0
      then risk c * (1 - VOLATILE_DECAY * min 1 ((now - last_update c) / 10))
      else risk c)"
  by (simp add: decay_channel_def Let_def)

lemma safety_decay_channel:
  "safety (decay_channel now c) =
     (if last_update c > 0
      then max CLAMP_LOW (safety c - PERSISTENT_DECAY * min 1 ((now - last_update c) / 10) * (1 / 10))
      else safety c)"
  by (simp add: decay_channel_def Let_def)

lemma decay_channel_turn:
  "risk (decay_channel now (c\<lparr>turn_count := n\<rparr>)) = risk (decay_channel now c)"
  "safety (decay_channel now (c\<lparr>turn_count := n\<rparr>)) = safety (decay_channel now c)"
  "flags (decay_channel now c) = flags c"
  by (simp_all add: decay_channel_def Let_def)

lemma risk_update_channel:
  "risk (fst (update_channel now c sig fl d)) =
     max CLAMP_LOW (min CLAMP_HIGH (risk (decay_channel now c) + d))"
  by (simp add: update_channel_def Let_def decay_channel_turn)

lemma safety_update_channel:
  "safety (fst (update_channel now c sig fl d)) =
     (if d > 0 then max CLAMP_LOW (safety (decay_channel now c) - d * GAMMA)
      else safety (decay_channel now c))"
  by (simp add: update_channel_def Let_def decay_channel_turn)


lemma flags_update_channel:
  "flags (fst (update_channel now c sig fl d)) = set_update (flags c) fl"
  by (simp add: update_channel_def Let_def decay_channel_turn)

lemma result_update_channel:
  "result_risk (snd (update_channel now c sig fl d)) = risk (fst (update_channel now c sig fl d))"
  "result_safety (snd (update_channel now c sig fl d)) = safety (fst (update_channel now c sig fl d))"
  "result_velocity (snd (update_channel now c sig fl d)) = velocity (fst (update_channel now c sig fl d))"
  "result_flags (snd (update_channel now c sig fl d)) = flags (fst (update_channel now c sig fl d))"
  "velocity_exceeded (snd (update_channel now c sig fl d)) = velocity_check sig"
  by (simp_all add: update_channel_def Let_def)

lemma risk_update_bounds:
  "CLAMP_LOW \<le> risk (fst (update_channel now c sig fl d))"
  "risk (fst (update_channel now c sig fl d)) \<le> CLAMP_HIGH"
  using CLAMP_order by (simp_all add: risk_update_channel)

lemma safety_decay_floor:
  "CLAMP_LOW \<le> safety c \<Longrightarrow> CLAMP_LOW \<le> safety (decay_channel now c)"
  by (simp add: safety_decay_channel)

lemma safety_update_floor:
  "CLAMP_LOW \<le> safety c \<Longrightarrow> CLAMP_LOW \<le> safety (fst (update_channel now c sig fl d))"
  by (simp add: safety_update_channel safety_decay_floor)


subsection \<open>Signal strengths and the velocity caps\<close>

lemma dict_get_le1: "strengths_le1 sig \<Longrightarrow> d \<le> 1 \<Longrightarrow> dict_get sig k d \<le> 1"
  by (induction sig k d rule: dict_get.induct) (auto simp: strengths_le1_def)

lemma dict_set_le1: "strengths_le1 sig \<Longrightarrow> v \<le> 1 \<Longrightarrow> strengths_le1 (dict_set sig k v)"
  by (induction sig k v rule: dict_set.induct) (auto simp: strengths_le1_def)

lemma foldl_preserves:
  assumes "P s" and "\<And>s x. P s \<Longrightarrow> P (f s x)"
  shows "P (foldl f s xs)"
  using assms(1) by (induction xs arbitrary: s) (simp_all add: assms(2))

lemma count_pattern_le1: "strengths_le1 sig \<Longrightarrow> strengths_le1 (count_pattern text cat sig p)"
  by (simp add: count_pattern_def Let_def dict_set_le1)

lemma count_language_le1: "strengths_le1 sig \<Longrightarrow> strengths_le1 (count_language text lang sig)"
  unfolding count_language_def count_category_def
  by (auto split: option.splits intro!: foldl_preserves count_pattern_le1)

lemma leak_pattern_le1: "strengths_le1 sig \<Longrightarrow> strengths_le1 (leak_pattern text cat sig p)"
  by (simp add: leak_pattern_def dict_set_le1 dict_get_le1)

lemma cross_language_le1: "strengths_le1 sig \<Longrightarrow> strengths_le1 (cross_language text lang sig)"
  unfolding cross_language_def leak_language_def leak_category_def
  by (rule foldl_preserves) (auto split: option.splits intro!: foldl_preserves leak_pattern_le1)

lemma strengths_le1_Nil: "strengths_le1 []"
  by (simp add: strengths_le1_def)

lemma analyze_signals_le1: "strengths_le1 (fst (analyze_signals text lang))"
  by (simp add: analyze_signals_def Let_def cross_language_le1 count_language_le1 strengths_le1_Nil)

lemma velocity_step_le1: "snd item \<le> 1 \<Longrightarrow> velocity_step False item = False"
  by (auto simp: velocity_step_def Let_def V_CAP_HARM_def V_CAP_MANIPULATION_def V_CAP_COERCION_def)

lemma velocity_check_le1: "strengths_le1 sig \<Longrightarrow> velocity_check sig = False"
  unfolding velocity_check_def strengths_le1_def
  by (induction sig) (simp_all add: velocity_step_le1)


subsection \<open>The guard operations keep the bounds\<close>

lemma guard_of_process_message:
  "fst (process_message clock disk_ok fs text d l m g) =
     fst (process_core (t_call clock) (t_update clock) text d l m g)"
  by (simp add: process_message_def Let_def split: sum.splits)

lemma selected_after_process_core:
  "select_channel d (fst (process_core tc tu text d l m g)) =
     fst (update_channel tu (select_channel d g)
            (fst (analyze_signals text (resolve_language l text)))
            (snd (analyze_signals text (resolve_language l text)))
            (compute_risk_delta (fst (analyze_signals text (resolve_language l text)))))"
  by (simp add: process_core_def Let_def select_channel_def store_channel_def)

text \<open>The risk of the channel a message went to is between the clamps in any state.\<close>

lemma updated_channel_risk_bounds:
  "CLAMP_LOW \<le> risk (select_channel d (fst (process_message clock disk_ok fs text d l m g)))
   \<and> risk (select_channel d (fst (process_message clock disk_ok fs text d l m g))) \<le> CLAMP_HIGH"
  by (simp only: guard_of_process_message selected_after_process_core risk_update_bounds)

lemma process_core_guard_ok:
  "guard_ok g \<Longrightarrow> guard_ok (fst (process_core tc tu text d l m g))"
  by (simp add: process_core_def Let_def select_channel_def store_channel_def guard_ok_def
        channel_ok_def risk_update_bounds safety_update_floor)

lemma process_core_handoff:
  "handoff_triggered g \<Longrightarrow> handoff_triggered (fst (process_core tc tu text d l m g))"
  by (simp add: process_core_def Let_def select_channel_def store_channel_def)

lemma trigger_lockdown_guard_ok:
  "guard_ok g \<Longrightarrow> guard_ok (fst (trigger_lockdown now reason g))"
  using CLAMP_order by (simp add: trigger_lockdown_def Let_def guard_ok_def channel_ok_def)

lemma release_lockdown_guard_ok:
  "guard_ok g \<Longrightarrow> guard_ok (fst (release_lockdown key g))"
  by (simp add: release_lockdown_def guard_ok_def)

lemma new_ChannelState_ok: "channel_ok new_ChannelState"
  using CLAMP_order CLAMP_LOW_small by (simp add: channel_ok_def new_ChannelState_def)

lemma fresh_guard_ok: "guard_ok (fresh_guard nid lang file now)"
  by (simp add: guard_ok_def fresh_guard_def new_ChannelState_ok)

lemma reset_guard_ok: "guard_ok (reset now g)"
  by (simp add: guard_ok_def reset_def new_ChannelState_ok)

lemma apply_call_guard_ok: "guard_ok g \<Longrightarrow> guard_ok (fst (apply_call c (g, fs)))"
  by (cases c)
     (simp_all add: Let_def guard_of_process_message process_core_guard_ok
        trigger_lockdown_guard_ok release_lockdown_guard_ok)


subsection \<open>A saved record is restored\<close>

lemma remdups_map_JStr: "remdups (map JStr xs) = map JStr (remdups xs)"
  by (induction xs) auto

lemma as_strings_map_JStr: "as_strings (map JStr xs) = Some xs"
  by (induction xs) simp_all

lemma to_set_saved_flags: "to_set (JArr (map JStr xs)) = Inr (map JStr (remdups xs))"
  by (simp add: to_set_def list_all_iff hashable_def remdups_map_JStr)


lemma load_body_saved:
  "load_body (Document (state_doc t g0)) g =
     Done (g\<lparr>inbound := restore_channel (inbound g0) (inbound g),
             outbound := restore_channel (outbound g0) (outbound g),
             handoff_triggered := handoff_triggered g0,
             lockdown_active := lockdown_active g0\<rparr>)"
  by (simp add: load_body_def state_doc_def channel_doc_def and_then_def assign_float_def
        assign_int_def assign_flags_def assign_bool_def getitem2_def getitem_def
        as_float_def as_int_def as_bool_def to_set_saved_flags as_strings_map_JStr
        restore_channel_def)

lemma construct_saved:
  assumes "persisted_record fs file = Some (Document (state_doc t g0))"
  shows "construct fs now nid lang file =
     Inr (Built ((fresh_guard nid lang file now)
                   \<lparr>inbound := restore_channel (inbound g0) new_ChannelState,
                    outbound := restore_channel (outbound g0) new_ChannelState,
                    handoff_triggered := handoff_triggered g0,
                    lockdown_active := lockdown_active g0\<rparr>) [])"
  using assms by (simp add: construct_def Let_def load_state_def load_body_saved fresh_guard_def)

lemma restore_channel_ok: "channel_ok saved \<Longrightarrow> channel_ok (restore_channel saved c)"
  by (simp add: channel_ok_def restore_channel_def)

subsection \<open>The bounds hold in every state that can arise\<close>

lemma reachable_guard_ok: "reachable g \<Longrightarrow> guard_ok g"
proof (induction rule: reachable.induct)
  case (fresh nid lang sf now)
  show ?case by (rule fresh_guard_ok)
next
  case (call g c fs)
  then show ?case by (simp add: apply_call_guard_ok)
next
  case (reset g now)
  show ?case by (rule reset_guard_ok)
next
  case (restart g0 fs sf t now nid lang g console)
  from construct_saved [OF restart.hyps(2)] restart.hyps(3)
  have "g = (fresh_guard nid lang sf now)
                   \<lparr>inbound := restore_channel (inbound g0) new_ChannelState,
                    outbound := restore_channel (outbound g0) new_ChannelState,
                    handoff_triggered := handoff_triggered g0,
                    lockdown_active := lockdown_active g0\<rparr>"
    by simp
  with restart.IH show ?case
    by (simp add: guard_ok_def restore_channel_ok)
qed

section \<open>The claims\<close>

subsection \<open>C1: the bounds after every update\<close>

text \<open>
  Claim C1. In every guard state that can arise, and for every message, the guard after
  \<^verbatim>\<open>process_message\<close> has on both channels a risk between \<open>CLAMP_LOW\<close> and
  \<open>CLAMP_HIGH\<close> and a safety of at least \<open>CLAMP_LOW\<close>, and the channel risk and safety
  reported in the result of the call satisfy the same bounds.
\<close>

theorem bounds_after_process_message:
  assumes "reachable g"
  shows "channel_ok (inbound (fst (process_message clock disk_ok fs text d l m g)))
       \<and> channel_ok (outbound (fst (process_message clock disk_ok fs text d l m g)))
       \<and> CLAMP_LOW \<le> msg_channel_risk (snd (process_core (t_call clock) (t_update clock) text d l m g))
       \<and> msg_channel_risk (snd (process_core (t_call clock) (t_update clock) text d l m g)) \<le> CLAMP_HIGH
       \<and> CLAMP_LOW \<le> msg_channel_safety (snd (process_core (t_call clock) (t_update clock) text d l m g))"
proof -
  have ok: "guard_ok g" using assms by (rule reachable_guard_ok)
  then have "guard_ok (fst (process_core (t_call clock) (t_update clock) text d l m g))"
    by (rule process_core_guard_ok)
  then have chans: "channel_ok (inbound (fst (process_message clock disk_ok fs text d l m g)))
       \<and> channel_ok (outbound (fst (process_message clock disk_ok fs text d l m g)))"
    by (simp add: guard_of_process_message guard_ok_def)
  from ok have sel: "CLAMP_LOW \<le> safety (select_channel d (g\<lparr>total_messages := total_messages g + 1\<rparr>))"
    by (simp add: select_channel_def guard_ok_def channel_ok_def)
  have res: "CLAMP_LOW \<le> msg_channel_risk (snd (process_core (t_call clock) (t_update clock) text d l m g))
       \<and> msg_channel_risk (snd (process_core (t_call clock) (t_update clock) text d l m g)) \<le> CLAMP_HIGH
       \<and> CLAMP_LOW \<le> msg_channel_safety (snd (process_core (t_call clock) (t_update clock) text d l m g))"
    using sel
    by (simp add: process_core_def Let_def result_update_channel risk_update_bounds
          safety_update_floor)
  from chans res show ?thesis by simp
qed

theorem bounds_after_process_message_witness:
  "reachable (fresh_guard ''local'' SPANISH None 0)
   \<and> channel_ok (inbound (fst (process_message \<lparr>t_call = 1, t_update = 1, t_save = 1\<rparr> True Map.empty
        ''Hola'' INBOUND AUTO None (fresh_guard ''local'' SPANISH None 0))))"
  using bounds_after_process_message [OF reachable.fresh, of "\<lparr>t_call = 1, t_update = 1, t_save = 1\<rparr>"
      True Map.empty "''Hola''" INBOUND AUTO None "''local''" SPANISH None 0]
  by (simp add: reachable.fresh)

subsection \<open>C2: the cap of one message\<close>







subsection \<open>C3: the hand-off flag is sticky\<close>

lemma apply_call_handoff:
  "handoff_triggered (fst w) \<Longrightarrow> handoff_triggered (fst (apply_call c w))"
proof (cases w)
  case (Pair g fs)
  assume "handoff_triggered (fst w)"
  with Pair show ?thesis
    by (cases c)
       (simp_all add: Let_def guard_of_process_message process_core_handoff
          trigger_lockdown_def release_lockdown_def)
qed

lemma run_calls_handoff:
  "handoff_triggered (fst w) \<Longrightarrow> handoff_triggered (fst (run_calls calls w))"
  unfolding run_calls_def
  by (induction calls arbitrary: w) (simp_all add: apply_call_handoff)

text \<open>
  Claim C3. Once \<open>handoff_triggered\<close> is true, it is true after every sequence of
  \<^verbatim>\<open>process_message\<close>, \<^verbatim>\<open>trigger_lockdown\<close> and \<^verbatim>\<open>release_lockdown\<close> calls;
  \<^verbatim>\<open>reset\<close> makes it false.
\<close>

theorem handoff_sticky:
  assumes "handoff_triggered g"
  shows "handoff_triggered (fst (run_calls calls (g, fs)))
       \<and> \<not> handoff_triggered (reset now (fst (run_calls calls (g, fs))))"
  using assms run_calls_handoff [of "(g, fs)" calls] by (simp add: reset_def)

text \<open>A guard with the flag set: the first message after a lockdown sets it.\<close>

lemma handoff_after_lockdown:
  "handoff_triggered (fst (process_core tc tu text d l m (fst (trigger_lockdown now reason g))))"
proof -
  let ?g = "fst (trigger_lockdown now reason g)"
  let ?g1 = "?g\<lparr>total_messages := total_messages ?g + 1\<rparr>"
  have locked: "risk (inbound ?g1) = CLAMP_HIGH \<and> risk (outbound ?g1) = CLAMP_HIGH"
    by (simp add: trigger_lockdown_def Let_def)
  have "CLAMP_HIGH \<le> max (risk (inbound (store_channel d c ?g1)))
                           (risk (outbound (store_channel d c ?g1)))" for c
    using locked by (auto simp: store_channel_def max_def)
  then show ?thesis
    by (simp add: process_core_def Let_def)
qed

theorem handoff_sticky_witness:
  "handoff_triggered (fst (process_core 1 1 ''Hola'' INBOUND SPANISH None
       (fst (trigger_lockdown 0 ''manual'' (fresh_guard ''local'' SPANISH None 0)))))
   \<and> handoff_triggered (fst (run_calls
        [ReleaseLockdown None,
         ProcessMessage \<lparr>t_call = 60, t_update = 60, t_save = 60\<rparr> True ''Hola'' INBOUND SPANISH None]
        (fst (process_core 1 1 ''Hola'' INBOUND SPANISH None
           (fst (trigger_lockdown 0 ''manual'' (fresh_guard ''local'' SPANISH None 0)))), Map.empty)))"
proof -
  have h: "handoff_triggered (fst (process_core 1 1 ''Hola'' INBOUND SPANISH None
       (fst (trigger_lockdown 0 ''manual'' (fresh_guard ''local'' SPANISH None 0)))))"
    by (rule handoff_after_lockdown)
  from handoff_sticky [OF h] h show ?thesis by blast
qed

subsection \<open>C5: lockdown and release\<close>

text \<open>
  Claim C5. \<^verbatim>\<open>trigger_lockdown\<close> sets the risk of both channels to \<open>CLAMP_HIGH\<close> and
  \<open>lockdown_active\<close> to true and changes nothing else; \<^verbatim>\<open>release_lockdown\<close> after it
  sets \<open>lockdown_active\<close> to false and leaves the rest of the guard, the risks included,
  as it is.
\<close>

theorem lockdown_then_release:
  "risk (inbound (fst (trigger_lockdown now reason g))) = CLAMP_HIGH
   \<and> risk (outbound (fst (trigger_lockdown now reason g))) = CLAMP_HIGH
   \<and> lockdown_active (fst (trigger_lockdown now reason g))
   \<and> fst (trigger_lockdown now reason g) =
        g\<lparr>inbound := (inbound g)\<lparr>risk := CLAMP_HIGH\<rparr>,
          outbound := (outbound g)\<lparr>risk := CLAMP_HIGH\<rparr>,
          lockdown_active := True\<rparr>
   \<and> snd (trigger_lockdown now reason g) =
        \<lparr>reply_status = ''LOCKDOWN_ACTIVE'', reply_reason = reason, reply_timestamp = now\<rparr>
   \<and> \<not> lockdown_active (fst (release_lockdown auth_key (fst (trigger_lockdown now reason g))))
   \<and> fst (release_lockdown auth_key (fst (trigger_lockdown now reason g))) =
        (fst (trigger_lockdown now reason g))\<lparr>lockdown_active := False\<rparr>
   \<and> risk (inbound (fst (release_lockdown auth_key (fst (trigger_lockdown now reason g))))) = CLAMP_HIGH
   \<and> risk (outbound (fst (release_lockdown auth_key (fst (trigger_lockdown now reason g))))) = CLAMP_HIGH
   \<and> snd (release_lockdown auth_key (fst (trigger_lockdown now reason g))) = ''LOCKDOWN_RELEASED''"
  by (simp add: trigger_lockdown_def release_lockdown_def Let_def)

subsection \<open>C9: the flags of a channel only grow\<close>

lemma set_set_add: "set (set_add s x) = insert x (set s)"
  by (auto simp: set_add_def)

lemma set_set_update: "set (set_update s xs) = set s \<union> set xs"
  unfolding set_update_def
  by (induction xs arbitrary: s) (auto simp: set_set_add)

lemma flags_process_core:
  "set (flags (inbound g)) \<subseteq> set (flags (inbound (fst (process_core tc tu text d l m g))))"
  "set (flags (outbound g)) \<subseteq> set (flags (outbound (fst (process_core tc tu text d l m g))))"
  by (auto simp: process_core_def Let_def select_channel_def store_channel_def
        flags_update_channel set_set_update)

text \<open>
  Claim C9. The flag set of a channel after an update contains the flag set before it,
  and contains the flags of the message; so after \<^verbatim>\<open>process_message\<close>, and after any
  sequence of calls, each channel of the guard has all the flags it had.
\<close>

theorem flags_grow:
  "set (flags c) \<subseteq> set (flags (fst (update_channel now c sig fl delta)))
   \<and> set fl \<subseteq> set (flags (fst (update_channel now c sig fl delta)))
   \<and> set (flags (inbound g))
        \<subseteq> set (flags (inbound (fst (process_message clock disk_ok fs text d l m g))))
   \<and> set (flags (outbound g))
        \<subseteq> set (flags (outbound (fst (process_message clock disk_ok fs text d l m g))))
   \<and> set (flags (inbound g)) \<subseteq> set (flags (inbound (fst (run_calls calls (g, fs)))))
   \<and> set (flags (outbound g)) \<subseteq> set (flags (outbound (fst (run_calls calls (g, fs)))))"
proof -
  have step: "set (flags (inbound (fst w))) \<subseteq> set (flags (inbound (fst (apply_call c w))))
            \<and> set (flags (outbound (fst w))) \<subseteq> set (flags (outbound (fst (apply_call c w))))"
    for c w
  proof (cases w)
    case (Pair g0 fs0)
    then show ?thesis
      by (cases c)
         (simp_all add: Let_def guard_of_process_message flags_process_core
            trigger_lockdown_def release_lockdown_def)
  qed
  have run: "set (flags (inbound (fst w))) \<subseteq> set (flags (inbound (fst (run_calls calls w))))
           \<and> set (flags (outbound (fst w))) \<subseteq> set (flags (outbound (fst (run_calls calls w))))"
    for w
    unfolding run_calls_def
  proof (induction calls arbitrary: w)
    case Nil
    show ?case by simp
  next
    case (Cons c calls)
    from step [of w c] Cons.IH [of "apply_call c w"] show ?case by auto
  qed
  from run [of "(g, fs)"] show ?thesis
    by (simp add: flags_update_channel set_set_update guard_of_process_message flags_process_core)
qed

subsection \<open>C10: the initial values\<close>

text \<open>
  Claim C10. A guard constructed without a persisted record, and a guard after
  \<^verbatim>\<open>reset\<close>, have on both channels risk \<open>CLAMP_LOW\<close>, safety 1, velocity 0, last update
  0, no flags, turn count 0 and an empty history.
\<close>

theorem initial_values:
  assumes "persisted_record fs file = None"
  shows "construct fs now nid lang file = Inr (Built (fresh_guard nid lang file now) [])
       \<and> inbound (fresh_guard nid lang file now) =
           \<lparr>risk = CLAMP_LOW, safety = 1, uncertainty = 0, velocity = 0, last_update = 0,
            flags = [], turn_count = 0, history = []\<rparr>
       \<and> outbound (fresh_guard nid lang file now) = inbound (fresh_guard nid lang file now)
       \<and> \<not> handoff_triggered (fresh_guard nid lang file now)
       \<and> \<not> lockdown_active (fresh_guard nid lang file now)
       \<and> total_messages (fresh_guard nid lang file now) = 0
       \<and> inbound (reset t g) = inbound (fresh_guard nid lang file now)
       \<and> outbound (reset t g) = inbound (fresh_guard nid lang file now)
       \<and> \<not> handoff_triggered (reset t g) \<and> \<not> lockdown_active (reset t g)
       \<and> total_messages (reset t g) = 0"
  using assms
  by (simp add: construct_def Let_def fresh_guard_def reset_def new_ChannelState_def)

theorem initial_values_witness:
  "persisted_record Map.empty (Some ''state.json'') = None
   \<and> construct Map.empty 0 ''local'' SPANISH (Some ''state.json'')
       = Inr (Built (fresh_guard ''local'' SPANISH (Some ''state.json'') 0) [])"
  using initial_values [of Map.empty "Some ''state.json''" 0 "''local''" SPANISH]
  by (simp add: persisted_record_def)

subsection \<open>C7: more elapsed time, less risk\<close>

lemma decay_channel_antimono:
  assumes "0 \<le> risk c" and "now1 \<le> now2"
  shows "risk (decay_channel now2 c) \<le> risk (decay_channel now1 c)"
proof (cases "last_update c > 0")
  case False
  then show ?thesis by (simp add: risk_decay_channel)
next
  case True
  let ?f = "\<lambda>now. min 1 ((now - last_update c) / 10)"
  have "(now1 - last_update c) / 10 \<le> (now2 - last_update c) / 10"
    using assms(2) by simp
  then have "?f now1 \<le> ?f now2" by (intro min.mono) simp_all
  then have "VOLATILE_DECAY * ?f now1 \<le> VOLATILE_DECAY * ?f now2"
    using VOLATILE_DECAY_range by (intro mult_left_mono) simp_all
  then have "1 - VOLATILE_DECAY * ?f now2 \<le> 1 - VOLATILE_DECAY * ?f now1" by linarith
  then have "risk c * (1 - VOLATILE_DECAY * ?f now2) \<le> risk c * (1 - VOLATILE_DECAY * ?f now1)"
    using assms(1) by (rule mult_left_mono)
  with True show ?thesis by (simp add: risk_decay_channel)
qed

lemma update_channel_antimono:
  assumes "0 \<le> risk c" and "now1 \<le> now2"
  shows "risk (fst (update_channel now2 c sig fl delta))
           \<le> risk (fst (update_channel now1 c sig fl delta))"
proof -
  from decay_channel_antimono [OF assms]
  have "max CLAMP_LOW (min CLAMP_HIGH (risk (decay_channel now2 c) + delta))
          \<le> max CLAMP_LOW (min CLAMP_HIGH (risk (decay_channel now1 c) + delta))"
    by linarith
  then show ?thesis by (simp only: risk_update_channel)
qed

text \<open>
  Claim C7. For the same message on the same guard state, the risk of the channel after
  the update does not grow with the time of the update: a later clock reading, that is
  a longer time since the previous update, gives a risk that is at most the risk of the
  earlier one. In particular the second of two identical messages leaves at least as
  much risk when it follows at once as when it follows after a long gap.
\<close>

theorem decay_monotone:
  assumes "reachable g" and "t_update clock1 \<le> t_update clock2"
  shows "risk (select_channel d (fst (process_message clock2 ok2 fs2 text d l m g)))
           \<le> risk (select_channel d (fst (process_message clock1 ok1 fs1 text d l m g)))"
proof -
  from assms(1) have "guard_ok g" by (rule reachable_guard_ok)
  then have "CLAMP_LOW \<le> risk (select_channel d g)"
    by (simp add: guard_ok_def channel_ok_def select_channel_def)
  with CLAMP_LOW_pos have "0 \<le> risk (select_channel d g)" by linarith
  from update_channel_antimono [OF this assms(2)] show ?thesis
    by (simp only: guard_of_process_message selected_after_process_core)
qed

theorem decay_monotone_witness:
  "reachable (fst (apply_call
       (ProcessMessage \<lparr>t_call = 100, t_update = 100, t_save = 100\<rparr> True ''Es urgente!''
          INBOUND SPANISH None) (fresh_guard ''local'' SPANISH None 0, Map.empty)))
   \<and> t_update \<lparr>t_call = 100, t_update = 100, t_save = 100\<rparr>
        \<le> t_update \<lparr>t_call = 160, t_update = 160, t_save = 160\<rparr>
   \<and> risk (select_channel INBOUND (fst (process_message
        \<lparr>t_call = 160, t_update = 160, t_save = 160\<rparr> True Map.empty ''Es urgente!'' INBOUND SPANISH None
        (fst (apply_call
          (ProcessMessage \<lparr>t_call = 100, t_update = 100, t_save = 100\<rparr> True ''Es urgente!''
             INBOUND SPANISH None) (fresh_guard ''local'' SPANISH None 0, Map.empty))))))
     \<le> risk (select_channel INBOUND (fst (process_message
        \<lparr>t_call = 100, t_update = 100, t_save = 100\<rparr> True Map.empty ''Es urgente!'' INBOUND SPANISH None
        (fst (apply_call
          (ProcessMessage \<lparr>t_call = 100, t_update = 100, t_save = 100\<rparr> True ''Es urgente!''
             INBOUND SPANISH None) (fresh_guard ''local'' SPANISH None 0, Map.empty))))))"
proof -
  have r: "reachable (fst (apply_call
       (ProcessMessage \<lparr>t_call = 100, t_update = 100, t_save = 100\<rparr> True ''Es urgente!''
          INBOUND SPANISH None) (fresh_guard ''local'' SPANISH None 0, Map.empty)))"
    by (intro reachable.call reachable.fresh)
  have t: "t_update \<lparr>t_call = 100, t_update = 100, t_save = 100\<rparr>
        \<le> t_update \<lparr>t_call = 160, t_update = 160, t_save = 160\<rparr>"
    by simp
  from decay_monotone [OF r t] r t show ?thesis by blast
qed

subsection \<open>C8: language detection\<close>

lemma score_card:
  "length (py_inter (py_set ws) (py_set ms)) = card (set ws \<inter> set ms)"
proof -
  have "distinct (py_inter (py_set ws) (py_set ms))"
    by (simp add: py_inter_def py_set_def)
  then have "length (py_inter (py_set ws) (py_set ms)) = card (set (py_inter (py_set ws) (py_set ms)))"
    by (simp add: distinct_card)
  also have "set (py_inter (py_set ws) (py_set ms)) = set ws \<inter> set ms"
    by (auto simp: py_inter_def py_set_def)
  finally show ?thesis .
qed

lemma scores_card:
  "es_score text = card (set (findall_words (lower text)) \<inter> set es_markers)"
  "pt_score text = card (set (findall_words (lower text)) \<inter> set pt_markers)"
  "en_score text = card (set (findall_words (lower text)) \<inter> set en_markers)"
  by (simp_all add: es_score_def pt_score_def en_score_def words_of_def score_card)

text \<open>
  Claim C8. With \<open>es\<close>, \<open>pt\<close> and \<open>en\<close> the sizes of the intersections of the set of
  lower-cased word tokens of the text with the three marker sets, the detector returns
  Portuguese exactly when \<open>pt > es\<close> and \<open>pt > en\<close>, otherwise English exactly when
  \<open>en > es\<close>, otherwise Spanish; a text with no marker of any language gives Spanish.
\<close>

theorem detect_language_rule:
  "(detect_language text = PORTUGUESE \<longleftrightarrow>
      card (set (findall_words (lower text)) \<inter> set pt_markers)
        > card (set (findall_words (lower text)) \<inter> set es_markers)
      \<and> card (set (findall_words (lower text)) \<inter> set pt_markers)
        > card (set (findall_words (lower text)) \<inter> set en_markers))
   \<and> (detect_language text = ENGLISH \<longleftrightarrow>
      \<not> (card (set (findall_words (lower text)) \<inter> set pt_markers)
            > card (set (findall_words (lower text)) \<inter> set es_markers)
          \<and> card (set (findall_words (lower text)) \<inter> set pt_markers)
            > card (set (findall_words (lower text)) \<inter> set en_markers))
      \<and> card (set (findall_words (lower text)) \<inter> set en_markers)
          > card (set (findall_words (lower text)) \<inter> set es_markers))
   \<and> (detect_language text = SPANISH \<longleftrightarrow>
      \<not> (card (set (findall_words (lower text)) \<inter> set pt_markers)
            > card (set (findall_words (lower text)) \<inter> set es_markers)
          \<and> card (set (findall_words (lower text)) \<inter> set pt_markers)
            > card (set (findall_words (lower text)) \<inter> set en_markers))
      \<and> \<not> card (set (findall_words (lower text)) \<inter> set en_markers)
          > card (set (findall_words (lower text)) \<inter> set es_markers))
   \<and> (set (findall_words (lower text)) \<inter> set es_markers = {}
        \<and> set (findall_words (lower text)) \<inter> set pt_markers = {}
        \<and> set (findall_words (lower text)) \<inter> set en_markers = {}
      \<longrightarrow> detect_language text = SPANISH)"
  by (auto simp: detect_language_def scores_card)

theorem detect_language_rule_witness:
  "set (findall_words (lower ''Maiz: 50kg!'')) \<inter> set es_markers = {}
   \<and> set (findall_words (lower ''Maiz: 50kg!'')) \<inter> set pt_markers = {}
   \<and> set (findall_words (lower ''Maiz: 50kg!'')) \<inter> set en_markers = {}
   \<and> detect_language ''Maiz: 50kg!'' = SPANISH"
proof -
  have w: "findall_words (lower ''Maiz: 50kg!'') = [''maiz'', ''50kg'']"
    by code_simp
  have e: "set (findall_words (lower ''Maiz: 50kg!'')) \<inter> set es_markers = {}
   \<and> set (findall_words (lower ''Maiz: 50kg!'')) \<inter> set pt_markers = {}
   \<and> set (findall_words (lower ''Maiz: 50kg!'')) \<inter> set en_markers = {}"
    unfolding w by (simp add: es_markers_def pt_markers_def en_markers_def)
  from detect_language_rule [of "''Maiz: 50kg!''"] e show ?thesis by blast
qed

subsection \<open>C6: a record that cannot be loaded\<close>






subsection \<open>C4: the velocity caps are never exceeded\<close>

lemma strengths_le1_member: "strengths_le1 sig \<Longrightarrow> (k, v) \<in> set sig \<Longrightarrow> v \<le> 1"
  by (auto simp: strengths_le1_def list_all_iff)

text \<open>
  Claim C4. Every strength in the signal map of the analyzer is at most 1.0, for every
  text and language. So the velocity check finds nothing on that map, no update made by
  \<^verbatim>\<open>process_message\<close> reports an exceeded velocity, and the hand-off of a message is
  exactly \<open>bilateral_risk \<ge> CLAMP_HIGH\<close>.
\<close>

theorem velocity_never_exceeded:
  "(\<forall>k v. (k, v) \<in> set (fst (analyze_signals text lang)) \<longrightarrow> v \<le> 1)
   \<and> (\<forall>k v. (k, v) \<in> set (fst (analyze_signals text lang)) \<longrightarrow>
         \<not> v * (3 / 10) > V_CAP_HARM \<and> \<not> v * (3 / 10) > V_CAP_MANIPULATION
         \<and> \<not> v * (3 / 10) > V_CAP_COERCION)
   \<and> \<not> velocity_check (fst (analyze_signals text lang))
   \<and> \<not> velocity_exceeded (snd (update_channel now c (fst (analyze_signals text lang))
                                   (snd (analyze_signals text lang))
                                   (compute_risk_delta (fst (analyze_signals text lang)))))
   \<and> msg_handoff (snd (process_core tc tu text d l m g))
       = (msg_bilateral_risk (snd (process_core tc tu text d l m g)) \<ge> CLAMP_HIGH)
   \<and> handoff_triggered (fst (process_message clock disk_ok fs text d l m g))
       = (handoff_triggered g
          \<or> msg_bilateral_risk (snd (process_core (t_call clock) (t_update clock) text d l m g))
               \<ge> CLAMP_HIGH)"
proof -
  have le1: "\<And>lang. strengths_le1 (fst (analyze_signals text lang))"
    by (rule analyze_signals_le1)
  have a: "\<forall>k v. (k, v) \<in> set (fst (analyze_signals text lang)) \<longrightarrow> v \<le> 1"
    using strengths_le1_member [OF le1] by blast
  have b: "\<forall>k v. (k, v) \<in> set (fst (analyze_signals text lang)) \<longrightarrow>
         \<not> v * (3 / 10) > V_CAP_HARM \<and> \<not> v * (3 / 10) > V_CAP_MANIPULATION
         \<and> \<not> v * (3 / 10) > V_CAP_COERCION"
  proof (intro allI impI)
    fix k v assume "(k, v) \<in> set (fst (analyze_signals text lang))"
    with a have "v \<le> 1" by blast
    then show "\<not> v * (3 / 10) > V_CAP_HARM \<and> \<not> v * (3 / 10) > V_CAP_MANIPULATION
         \<and> \<not> v * (3 / 10) > V_CAP_COERCION"
      by (simp add: V_CAP_HARM_def V_CAP_MANIPULATION_def V_CAP_COERCION_def)
  qed
  have c: "\<And>lang. \<not> velocity_check (fst (analyze_signals text lang))"
    using velocity_check_le1 [OF le1] by simp
  have d: "msg_handoff (snd (process_core tc tu text d l m g))
       = (msg_bilateral_risk (snd (process_core tc tu text d l m g)) \<ge> CLAMP_HIGH)" for tc tu
    using c by (simp add: process_core_def Let_def result_update_channel)
  have e: "handoff_triggered (fst (process_core tc tu text d l m g))
       = (handoff_triggered g \<or> msg_handoff (snd (process_core tc tu text d l m g)))" for tc tu
    by (auto simp: process_core_def Let_def store_channel_def)
  show ?thesis
    using a b c [of lang] d e
    by (simp only: result_update_channel guard_of_process_message) blast
qed


theorem velocity_never_exceeded_witness:
  "(''coercion'', 2 / 10) \<in> set (fst (analyze_signals ''regret'' ENGLISH))
   \<and> (2 / 10 :: real) \<le> 1
   \<and> \<not> (2 / 10 :: real) * (3 / 10) > V_CAP_COERCION"
proof -
  have ev: "fst (analyze_signals ''regret'' ENGLISH) = [(''coercion'', 2 / 10)]"
    by code_simp
  have m: "(''coercion'', 2 / 10) \<in> set (fst (analyze_signals ''regret'' ENGLISH))"
    by (simp add: ev)
  from velocity_never_exceeded [of "''regret''" ENGLISH] m show ?thesis
    by blast
qed

end
